theory Spec2Isabelle
  imports Main "HOL-Library.Sublist"
begin

section \<open>Values, strings and exceptions of the Python program\<close>

text \<open>
  The program is \<^verbatim>\<open>homework.py\<close>: a bot that polls a grading service and forwards
  status changes to a Telegram chat. A Python \<^verbatim>\<open>str\<close> is modelled as a \<^typ>\<open>string\<close>
  holding its UTF-8 bytes: concatenation, equality and the substring test of the bytes
  are those of the code points. The values the program reads are what
  \<^verbatim>\<open>response.json()\<close> returns; a number is an integer here (fractional numbers are
  left out of the model), and a dict is the list of its items, in which a key is looked
  up with \<^const>\<open>map_of\<close>.
\<close>

datatype json =
    JNull
  | JBool bool
  | JInt int
  | JStr string
  | JList "json list"
  | JDict "(string \<times> json) list"

text \<open>
  Modelled from the spec: the module \<^verbatim>\<open>exceptions\<close> that declares
  \<^verbatim>\<open>APIerrorException\<close> and \<^verbatim>\<open>SendMessageException\<close> is not among the sources.
  Both are taken to be ordinary exceptions (subclasses of \<^verbatim>\<open>Exception\<close>, described
  by the message they are raised with), as the spec's FetchError and DeliveryError are:
  errors that the boundary around the cycle catches.

  The other constructors are the built-in exceptions the program raises or runs into.
  An exception carries its description, the text \<^verbatim>\<open>str(error)\<close> gives: the
  handler of the loop is \<^verbatim>\<open>except Exception\<close> and reads nothing else of it.
  Logging has no part in what the program sends or keeps and is left out.
\<close>

datatype exn =
    APIerrorException string
  | SendMessageException string
  | Exception string
  | TypeError string
  | ValueError string
  | KeyError string
  | IndexError string
  | AttributeError string

fun str_exn :: "exn \<Rightarrow> string" where
  "str_exn (APIerrorException d) = d"
| "str_exn (SendMessageException d) = d"
| "str_exn (Exception d) = d"
| "str_exn (TypeError d) = d"
| "str_exn (ValueError d) = d"
| "str_exn (KeyError d) = d"
| "str_exn (IndexError d) = d"
| "str_exn (AttributeError d) = d"

subsection \<open>What the interpreter does on these values\<close>

fun type_name :: "json \<Rightarrow> string" where
  "type_name JNull = ''NoneType''"
| "type_name (JBool b) = ''bool''"
| "type_name (JInt i) = ''int''"
| "type_name (JStr s) = ''str''"
| "type_name (JList xs) = ''list''"
| "type_name (JDict d) = ''dict''"

text \<open>\<^verbatim>\<open>isinstance(obj, dict)\<close>.\<close>

fun isinstance_dict :: "json \<Rightarrow> bool" where
  "isinstance_dict (JDict d) = True"
| "isinstance_dict obj = False"

text \<open>Truth value of an object, as \<^verbatim>\<open>or\<close> tests it.\<close>

fun truthy :: "json \<Rightarrow> bool" where
  "truthy JNull = False"
| "truthy (JBool b) = b"
| "truthy (JInt i) = (i \<noteq> 0)"
| "truthy (JStr s) = (s \<noteq> [])"
| "truthy (JList xs) = (xs \<noteq> [])"
| "truthy (JDict d) = (d \<noteq> [])"

text \<open>
  \<^verbatim>\<open>repr\<close> of a string that holds no apostrophe, no backslash and no unprintable
  character (every string the program takes the \<^verbatim>\<open>repr\<close> of is one): the string
  between apostrophes. The description of a \<^verbatim>\<open>KeyError\<close> is the \<^verbatim>\<open>repr\<close> of its
  argument.
\<close>

definition quoted :: "string \<Rightarrow> string" where
  "quoted s = [CHR 0x27] @ s @ [CHR 0x27]"

text \<open>
  Interpolation \<^verbatim>\<open>{value}\<close> in an f-string. A \<^verbatim>\<open>str\<close> is inserted as it is; the
  text of any other value is the built-in \<^verbatim>\<open>str\<close> of the interpreter, which is the
  parameter \<open>fmt\<close> of the model.
\<close>

definition py_format :: "(json \<Rightarrow> string) \<Rightarrow> json \<Rightarrow> string" where
  "py_format fmt v = (case v of JStr s \<Rightarrow> s | _ \<Rightarrow> fmt v)"

text \<open>\<^verbatim>\<open>obj.get(key)\<close>: only a dict has the method; an absent key gives \<^verbatim>\<open>None\<close>.\<close>

definition dict_get :: "json \<Rightarrow> string \<Rightarrow> exn + json" where
  "dict_get obj key =
     (case obj of
        JDict d \<Rightarrow> (case map_of d key of None \<Rightarrow> Inr JNull | Some v \<Rightarrow> Inr v)
      | _ \<Rightarrow> Inl (AttributeError
                 (quoted (type_name obj) @ '' object has no attribute '' @ quoted ''get'')))"

text \<open>\<^verbatim>\<open>obj[key]\<close> with a string key (the error texts are those of CPython 3.11).\<close>

definition getitem_str :: "json \<Rightarrow> string \<Rightarrow> exn + json" where
  "getitem_str obj key =
     (case obj of
        JDict d \<Rightarrow>
          (case map_of d key of None \<Rightarrow> Inl (KeyError (quoted key)) | Some v \<Rightarrow> Inr v)
      | JList xs \<Rightarrow> Inl (TypeError ''list indices must be integers or slices, not str'')
      | JStr s \<Rightarrow> Inl (TypeError (''string indices must be integers, not '' @ quoted ''str''))
      | _ \<Rightarrow> Inl (TypeError (quoted (type_name obj) @ '' object is not subscriptable'')))"

text \<open>
  \<^verbatim>\<open>obj[0]\<close>. The first character of a string is its first code point: the first byte
  and the continuation bytes (\<open>0x80\<close> to \<open>0xBF\<close>) after it. The keys of a decoded
  JSON object are strings, so \<open>0\<close> is never one of them.
\<close>

definition continuation :: "char \<Rightarrow> bool" where
  "continuation c = (128 \<le> (of_char c :: nat) \<and> (of_char c :: nat) < 192)"

definition getitem_0 :: "json \<Rightarrow> exn + json" where
  "getitem_0 obj =
     (case obj of
        JList [] \<Rightarrow> Inl (IndexError ''list index out of range'')
      | JList (x # xs) \<Rightarrow> Inr x
      | JStr [] \<Rightarrow> Inl (IndexError ''string index out of range'')
      | JStr (c # cs) \<Rightarrow> Inr (JStr (c # takeWhile continuation cs))
      | JDict d \<Rightarrow> Inl (KeyError ''0'')
      | _ \<Rightarrow> Inl (TypeError (quoted (type_name obj) @ '' object is not subscriptable'')))"

text \<open>
  \<^verbatim>\<open>key in obj\<close> with a string key: a key of a dict, an element of a list (equal
  to the string), a substring of a string.
\<close>

definition contains_str :: "string \<Rightarrow> json \<Rightarrow> exn + bool" where
  "contains_str key obj =
     (case obj of
        JDict d \<Rightarrow> Inr (map_of d key \<noteq> None)
      | JList xs \<Rightarrow> Inr (JStr key \<in> set xs)
      | JStr s \<Rightarrow> Inr (sublist key s)
      | _ \<Rightarrow> Inl (TypeError (''argument of type '' @ quoted (type_name obj) @ '' is not iterable'')))"

section \<open>Constants of the module\<close>

definition RETRY_TIME :: nat where
  "RETRY_TIME = 600"

text \<open>UTF-8 of the value of key approved (line 28): Rabota proverena: rev'yueru vsyo ponravilos'. Ura!\<close>

definition verdict_approved :: string where
  "verdict_approved =
     [CHR 0xD0, CHR 0xA0, CHR 0xD0, CHR 0xB0, CHR 0xD0, CHR 0xB1, CHR 0xD0, CHR 0xBE,
     CHR 0xD1, CHR 0x82, CHR 0xD0, CHR 0xB0] @ '' '' @ [CHR 0xD0, CHR 0xBF, CHR 0xD1,
     CHR 0x80, CHR 0xD0, CHR 0xBE, CHR 0xD0, CHR 0xB2, CHR 0xD0, CHR 0xB5, CHR 0xD1,
     CHR 0x80, CHR 0xD0, CHR 0xB5, CHR 0xD0, CHR 0xBD, CHR 0xD0, CHR 0xB0] @ '': '' @
     [CHR 0xD1, CHR 0x80, CHR 0xD0, CHR 0xB5, CHR 0xD0, CHR 0xB2, CHR 0xD1, CHR 0x8C,
     CHR 0xD1, CHR 0x8E, CHR 0xD0, CHR 0xB5, CHR 0xD1, CHR 0x80, CHR 0xD1, CHR 0x83] @
     '' '' @ [CHR 0xD0, CHR 0xB2, CHR 0xD1, CHR 0x81, CHR 0xD1, CHR 0x91] @ '' '' @
     [CHR 0xD0, CHR 0xBF, CHR 0xD0, CHR 0xBE, CHR 0xD0, CHR 0xBD, CHR 0xD1, CHR 0x80,
     CHR 0xD0, CHR 0xB0, CHR 0xD0, CHR 0xB2, CHR 0xD0, CHR 0xB8, CHR 0xD0, CHR 0xBB,
     CHR 0xD0, CHR 0xBE, CHR 0xD1, CHR 0x81, CHR 0xD1, CHR 0x8C] @ ''. '' @ [CHR 0xD0,
     CHR 0xA3, CHR 0xD1, CHR 0x80, CHR 0xD0, CHR 0xB0] @ ''!''"

text \<open>UTF-8 of the value of key reviewing (line 29): Rabota vzyata na proverku rev'yuerom.\<close>

definition verdict_reviewing :: string where
  "verdict_reviewing =
     [CHR 0xD0, CHR 0xA0, CHR 0xD0, CHR 0xB0, CHR 0xD0, CHR 0xB1, CHR 0xD0, CHR 0xBE,
     CHR 0xD1, CHR 0x82, CHR 0xD0, CHR 0xB0] @ '' '' @ [CHR 0xD0, CHR 0xB2, CHR 0xD0,
     CHR 0xB7, CHR 0xD1, CHR 0x8F, CHR 0xD1, CHR 0x82, CHR 0xD0, CHR 0xB0] @ '' '' @
     [CHR 0xD0, CHR 0xBD, CHR 0xD0, CHR 0xB0] @ '' '' @ [CHR 0xD0, CHR 0xBF, CHR 0xD1,
     CHR 0x80, CHR 0xD0, CHR 0xBE, CHR 0xD0, CHR 0xB2, CHR 0xD0, CHR 0xB5, CHR 0xD1,
     CHR 0x80, CHR 0xD0, CHR 0xBA, CHR 0xD1, CHR 0x83] @ '' '' @ [CHR 0xD1, CHR 0x80,
     CHR 0xD0, CHR 0xB5, CHR 0xD0, CHR 0xB2, CHR 0xD1, CHR 0x8C, CHR 0xD1, CHR 0x8E,
     CHR 0xD0, CHR 0xB5, CHR 0xD1, CHR 0x80, CHR 0xD0, CHR 0xBE, CHR 0xD0, CHR 0xBC] @
     ''.''"

text \<open>UTF-8 of the value of key rejected (line 30): Rabota proverena: u rev'yuera est' zamechaniya.\<close>

definition verdict_rejected :: string where
  "verdict_rejected =
     [CHR 0xD0, CHR 0xA0, CHR 0xD0, CHR 0xB0, CHR 0xD0, CHR 0xB1, CHR 0xD0, CHR 0xBE,
     CHR 0xD1, CHR 0x82, CHR 0xD0, CHR 0xB0] @ '' '' @ [CHR 0xD0, CHR 0xBF, CHR 0xD1,
     CHR 0x80, CHR 0xD0, CHR 0xBE, CHR 0xD0, CHR 0xB2, CHR 0xD0, CHR 0xB5, CHR 0xD1,
     CHR 0x80, CHR 0xD0, CHR 0xB5, CHR 0xD0, CHR 0xBD, CHR 0xD0, CHR 0xB0] @ '': '' @
     [CHR 0xD1, CHR 0x83] @ '' '' @ [CHR 0xD1, CHR 0x80, CHR 0xD0, CHR 0xB5, CHR 0xD0,
     CHR 0xB2, CHR 0xD1, CHR 0x8C, CHR 0xD1, CHR 0x8E, CHR 0xD0, CHR 0xB5, CHR 0xD1,
     CHR 0x80, CHR 0xD0, CHR 0xB0] @ '' '' @ [CHR 0xD0, CHR 0xB5, CHR 0xD1, CHR 0x81,
     CHR 0xD1, CHR 0x82, CHR 0xD1, CHR 0x8C] @ '' '' @ [CHR 0xD0, CHR 0xB7, CHR 0xD0,
     CHR 0xB0, CHR 0xD0, CHR 0xBC, CHR 0xD0, CHR 0xB5, CHR 0xD1, CHR 0x87, CHR 0xD0,
     CHR 0xB0, CHR 0xD0, CHR 0xBD, CHR 0xD0, CHR 0xB8, CHR 0xD1, CHR 0x8F] @ ''.''"

text \<open>line 40: Oshibka otpravki soobshcheniya\<close>

definition text_send_failed :: string where
  "text_send_failed =
     [CHR 0xD0, CHR 0x9E, CHR 0xD1, CHR 0x88, CHR 0xD0, CHR 0xB8, CHR 0xD0, CHR 0xB1,
     CHR 0xD0, CHR 0xBA, CHR 0xD0, CHR 0xB0] @ '' '' @ [CHR 0xD0, CHR 0xBE, CHR 0xD1,
     CHR 0x82, CHR 0xD0, CHR 0xBF, CHR 0xD1, CHR 0x80, CHR 0xD0, CHR 0xB0, CHR 0xD0,
     CHR 0xB2, CHR 0xD0, CHR 0xBA, CHR 0xD0, CHR 0xB8] @ '' '' @ [CHR 0xD1, CHR 0x81,
     CHR 0xD0, CHR 0xBE, CHR 0xD0, CHR 0xBE, CHR 0xD0, CHR 0xB1, CHR 0xD1, CHR 0x89,
     CHR 0xD0, CHR 0xB5, CHR 0xD0, CHR 0xBD, CHR 0xD0, CHR 0xB8, CHR 0xD1, CHR 0x8F]"

text \<open>line 59, up to the interpolated error: Oshibka pri zaprose k API:\<close>

definition text_request_failed :: string where
  "text_request_failed =
     [CHR 0xD0, CHR 0x9E, CHR 0xD1, CHR 0x88, CHR 0xD0, CHR 0xB8, CHR 0xD0, CHR 0xB1,
     CHR 0xD0, CHR 0xBA, CHR 0xD0, CHR 0xB0] @ '' '' @ [CHR 0xD0, CHR 0xBF, CHR 0xD1,
     CHR 0x80, CHR 0xD0, CHR 0xB8] @ '' '' @ [CHR 0xD0, CHR 0xB7, CHR 0xD0, CHR 0xB0,
     CHR 0xD0, CHR 0xBF, CHR 0xD1, CHR 0x80, CHR 0xD0, CHR 0xBE, CHR 0xD1, CHR 0x81,
     CHR 0xD0, CHR 0xB5] @ '' '' @ [CHR 0xD0, CHR 0xBA] @ '' API: ''"

text \<open>line 62, up to the interpolated status code: Oshibka\<close>

definition text_bad_status :: string where
  "text_bad_status =
     [CHR 0xD0, CHR 0x9E, CHR 0xD1, CHR 0x88, CHR 0xD0, CHR 0xB8, CHR 0xD0, CHR 0xB1,
     CHR 0xD0, CHR 0xBA, CHR 0xD0, CHR 0xB0] @ '' ''"

text \<open>line 72: Ot API poluchen pustoy spisok proveryaemykh rabot.\<close>

definition text_empty_list :: string where
  "text_empty_list =
     [CHR 0xD0, CHR 0x9E, CHR 0xD1, CHR 0x82] @ '' API '' @ [CHR 0xD0, CHR 0xBF, CHR 0xD0,
     CHR 0xBE, CHR 0xD0, CHR 0xBB, CHR 0xD1, CHR 0x83, CHR 0xD1, CHR 0x87, CHR 0xD0,
     CHR 0xB5, CHR 0xD0, CHR 0xBD] @ '' '' @ [CHR 0xD0, CHR 0xBF, CHR 0xD1, CHR 0x83,
     CHR 0xD1, CHR 0x81, CHR 0xD1, CHR 0x82, CHR 0xD0, CHR 0xBE, CHR 0xD0, CHR 0xB9] @
     '' '' @ [CHR 0xD1, CHR 0x81, CHR 0xD0, CHR 0xBF, CHR 0xD0, CHR 0xB8, CHR 0xD1,
     CHR 0x81, CHR 0xD0, CHR 0xBE, CHR 0xD0, CHR 0xBA] @ '' '' @ [CHR 0xD0, CHR 0xBF,
     CHR 0xD1, CHR 0x80, CHR 0xD0, CHR 0xBE, CHR 0xD0, CHR 0xB2, CHR 0xD0, CHR 0xB5,
     CHR 0xD1, CHR 0x80, CHR 0xD1, CHR 0x8F, CHR 0xD0, CHR 0xB5, CHR 0xD0, CHR 0xBC,
     CHR 0xD1, CHR 0x8B, CHR 0xD1, CHR 0x85] @ '' '' @ [CHR 0xD1, CHR 0x80, CHR 0xD0,
     CHR 0xB0, CHR 0xD0, CHR 0xB1, CHR 0xD0, CHR 0xBE, CHR 0xD1, CHR 0x82] @ ''.''"

text \<open>line 75: V otvete na zapros otsutstvuet klyuch "homeworks"\<close>

definition text_no_homeworks_key :: string where
  "text_no_homeworks_key =
     [CHR 0xD0, CHR 0x92] @ '' '' @ [CHR 0xD0, CHR 0xBE, CHR 0xD1, CHR 0x82, CHR 0xD0,
     CHR 0xB2, CHR 0xD0, CHR 0xB5, CHR 0xD1, CHR 0x82, CHR 0xD0, CHR 0xB5] @ '' '' @
     [CHR 0xD0, CHR 0xBD, CHR 0xD0, CHR 0xB0] @ '' '' @ [CHR 0xD0, CHR 0xB7, CHR 0xD0,
     CHR 0xB0, CHR 0xD0, CHR 0xBF, CHR 0xD1, CHR 0x80, CHR 0xD0, CHR 0xBE, CHR 0xD1,
     CHR 0x81] @ '' '' @ [CHR 0xD0, CHR 0xBE, CHR 0xD1, CHR 0x82, CHR 0xD1, CHR 0x81,
     CHR 0xD1, CHR 0x83, CHR 0xD1, CHR 0x82, CHR 0xD1, CHR 0x81, CHR 0xD1, CHR 0x82,
     CHR 0xD0, CHR 0xB2, CHR 0xD1, CHR 0x83, CHR 0xD0, CHR 0xB5, CHR 0xD1, CHR 0x82] @
     '' '' @ [CHR 0xD0, CHR 0xBA, CHR 0xD0, CHR 0xBB, CHR 0xD1, CHR 0x8E, CHR 0xD1,
     CHR 0x87] @ '' '' @ [CHR 0x22] @ ''homeworks'' @ [CHR 0x22]"

text \<open>line 79: Net spiska proveryaemykh rabot.\<close>

definition text_no_list :: string where
  "text_no_list =
     [CHR 0xD0, CHR 0x9D, CHR 0xD0, CHR 0xB5, CHR 0xD1, CHR 0x82] @ '' '' @ [CHR 0xD1,
     CHR 0x81, CHR 0xD0, CHR 0xBF, CHR 0xD0, CHR 0xB8, CHR 0xD1, CHR 0x81, CHR 0xD0,
     CHR 0xBA, CHR 0xD0, CHR 0xB0] @ '' '' @ [CHR 0xD0, CHR 0xBF, CHR 0xD1, CHR 0x80,
     CHR 0xD0, CHR 0xBE, CHR 0xD0, CHR 0xB2, CHR 0xD0, CHR 0xB5, CHR 0xD1, CHR 0x80,
     CHR 0xD1, CHR 0x8F, CHR 0xD0, CHR 0xB5, CHR 0xD0, CHR 0xBC, CHR 0xD1, CHR 0x8B,
     CHR 0xD1, CHR 0x85] @ '' '' @ [CHR 0xD1, CHR 0x80, CHR 0xD0, CHR 0xB0, CHR 0xD0,
     CHR 0xB1, CHR 0xD0, CHR 0xBE, CHR 0xD1, CHR 0x82] @ ''.''"

text \<open>line 82, before the interpolated value: Oshibka tipa dannykh!\<close>

definition text_not_dict_pre :: string where
  "text_not_dict_pre =
     [CHR 0xD0, CHR 0x9E, CHR 0xD1, CHR 0x88, CHR 0xD0, CHR 0xB8, CHR 0xD0, CHR 0xB1,
     CHR 0xD0, CHR 0xBA, CHR 0xD0, CHR 0xB0] @ '' '' @ [CHR 0xD1, CHR 0x82, CHR 0xD0,
     CHR 0xB8, CHR 0xD0, CHR 0xBF, CHR 0xD0, CHR 0xB0] @ '' '' @ [CHR 0xD0, CHR 0xB4,
     CHR 0xD0, CHR 0xB0, CHR 0xD0, CHR 0xBD, CHR 0xD0, CHR 0xBD, CHR 0xD1, CHR 0x8B,
     CHR 0xD1, CHR 0x85] @ ''! ''"

text \<open>line 82, after the interpolated value: ne slovar'!\<close>

definition text_not_dict_post :: string where
  "text_not_dict_post =
     '' '' @ [CHR 0xD0, CHR 0xBD, CHR 0xD0, CHR 0xB5] @ '' '' @ [CHR 0xD1, CHR 0x81,
     CHR 0xD0, CHR 0xBB, CHR 0xD0, CHR 0xBE, CHR 0xD0, CHR 0xB2, CHR 0xD0, CHR 0xB0,
     CHR 0xD1, CHR 0x80, CHR 0xD1, CHR 0x8C] @ ''!''"

text \<open>line 93: Otsutstvuet klyuch "homework_name" v otvete API\<close>

definition text_no_name :: string where
  "text_no_name =
     [CHR 0xD0, CHR 0x9E, CHR 0xD1, CHR 0x82, CHR 0xD1, CHR 0x81, CHR 0xD1, CHR 0x83,
     CHR 0xD1, CHR 0x82, CHR 0xD1, CHR 0x81, CHR 0xD1, CHR 0x82, CHR 0xD0, CHR 0xB2,
     CHR 0xD1, CHR 0x83, CHR 0xD0, CHR 0xB5, CHR 0xD1, CHR 0x82] @ '' '' @ [CHR 0xD0,
     CHR 0xBA, CHR 0xD0, CHR 0xBB, CHR 0xD1, CHR 0x8E, CHR 0xD1, CHR 0x87] @ '' '' @
     [CHR 0x22] @ ''homework_name'' @ [CHR 0x22] @ '' '' @ [CHR 0xD0, CHR 0xB2] @ '' '' @
     [CHR 0xD0, CHR 0xBE, CHR 0xD1, CHR 0x82, CHR 0xD0, CHR 0xB2, CHR 0xD0, CHR 0xB5,
     CHR 0xD1, CHR 0x82, CHR 0xD0, CHR 0xB5] @ '' API''"

text \<open>line 95: Otsutstvuet klyuch "status" v otvete API\<close>

definition text_no_status :: string where
  "text_no_status =
     [CHR 0xD0, CHR 0x9E, CHR 0xD1, CHR 0x82, CHR 0xD1, CHR 0x81, CHR 0xD1, CHR 0x83,
     CHR 0xD1, CHR 0x82, CHR 0xD1, CHR 0x81, CHR 0xD1, CHR 0x82, CHR 0xD0, CHR 0xB2,
     CHR 0xD1, CHR 0x83, CHR 0xD0, CHR 0xB5, CHR 0xD1, CHR 0x82] @ '' '' @ [CHR 0xD0,
     CHR 0xBA, CHR 0xD0, CHR 0xBB, CHR 0xD1, CHR 0x8E, CHR 0xD1, CHR 0x87] @ '' '' @
     [CHR 0x22] @ ''status'' @ [CHR 0x22] @ '' '' @ [CHR 0xD0, CHR 0xB2] @ '' '' @
     [CHR 0xD0, CHR 0xBE, CHR 0xD1, CHR 0x82, CHR 0xD0, CHR 0xB2, CHR 0xD0, CHR 0xB5,
     CHR 0xD1, CHR 0x82, CHR 0xD0, CHR 0xB5] @ '' API''"

text \<open>line 99, up to the interpolated status: Neizvestnyy status raboty:\<close>

definition text_unknown_status :: string where
  "text_unknown_status =
     [CHR 0xD0, CHR 0x9D, CHR 0xD0, CHR 0xB5, CHR 0xD0, CHR 0xB8, CHR 0xD0, CHR 0xB7,
     CHR 0xD0, CHR 0xB2, CHR 0xD0, CHR 0xB5, CHR 0xD1, CHR 0x81, CHR 0xD1, CHR 0x82,
     CHR 0xD0, CHR 0xBD, CHR 0xD1, CHR 0x8B, CHR 0xD0, CHR 0xB9] @ '' '' @ [CHR 0xD1,
     CHR 0x81, CHR 0xD1, CHR 0x82, CHR 0xD0, CHR 0xB0, CHR 0xD1, CHR 0x82, CHR 0xD1,
     CHR 0x83, CHR 0xD1, CHR 0x81] @ '' '' @ [CHR 0xD1, CHR 0x80, CHR 0xD0, CHR 0xB0,
     CHR 0xD0, CHR 0xB1, CHR 0xD0, CHR 0xBE, CHR 0xD1, CHR 0x82, CHR 0xD1, CHR 0x8B] @
     '': ''"

text \<open>line 101, up to the interpolated name: Izmenilsya status proverki raboty "\<close>

definition text_changed_pre :: string where
  "text_changed_pre =
     [CHR 0xD0, CHR 0x98, CHR 0xD0, CHR 0xB7, CHR 0xD0, CHR 0xBC, CHR 0xD0, CHR 0xB5,
     CHR 0xD0, CHR 0xBD, CHR 0xD0, CHR 0xB8, CHR 0xD0, CHR 0xBB, CHR 0xD1, CHR 0x81,
     CHR 0xD1, CHR 0x8F] @ '' '' @ [CHR 0xD1, CHR 0x81, CHR 0xD1, CHR 0x82, CHR 0xD0,
     CHR 0xB0, CHR 0xD1, CHR 0x82, CHR 0xD1, CHR 0x83, CHR 0xD1, CHR 0x81] @ '' '' @
     [CHR 0xD0, CHR 0xBF, CHR 0xD1, CHR 0x80, CHR 0xD0, CHR 0xBE, CHR 0xD0, CHR 0xB2,
     CHR 0xD0, CHR 0xB5, CHR 0xD1, CHR 0x80, CHR 0xD0, CHR 0xBA, CHR 0xD0, CHR 0xB8] @
     '' '' @ [CHR 0xD1, CHR 0x80, CHR 0xD0, CHR 0xB0, CHR 0xD0, CHR 0xB1, CHR 0xD0,
     CHR 0xBE, CHR 0xD1, CHR 0x82, CHR 0xD1, CHR 0x8B] @ '' '' @ [CHR 0x22]"

text \<open>line 101, between the name and the verdict\<close>

definition text_changed_mid :: string where
  "text_changed_mid =
     [CHR 0x22] @ ''. ''"

text \<open>line 136, up to the interpolated error: Sboy v rabote programmy:\<close>

definition text_failure_pre :: string where
  "text_failure_pre =
     [CHR 0xD0, CHR 0xA1, CHR 0xD0, CHR 0xB1, CHR 0xD0, CHR 0xBE, CHR 0xD0, CHR 0xB9] @
     '' '' @ [CHR 0xD0, CHR 0xB2] @ '' '' @ [CHR 0xD1, CHR 0x80, CHR 0xD0, CHR 0xB0,
     CHR 0xD0, CHR 0xB1, CHR 0xD0, CHR 0xBE, CHR 0xD1, CHR 0x82, CHR 0xD0, CHR 0xB5] @
     '' '' @ [CHR 0xD0, CHR 0xBF, CHR 0xD1, CHR 0x80, CHR 0xD0, CHR 0xBE, CHR 0xD0,
     CHR 0xB3, CHR 0xD1, CHR 0x80, CHR 0xD0, CHR 0xB0, CHR 0xD0, CHR 0xBC, CHR 0xD0,
     CHR 0xBC, CHR 0xD1, CHR 0x8B] @ '': ''"

text \<open>line 118: Bot nachal svoyu rabotu!\<close>

definition start_message :: string where
  "start_message =
     [CHR 0xD0, CHR 0x91, CHR 0xD0, CHR 0xBE, CHR 0xD1, CHR 0x82] @ '' '' @ [CHR 0xD0,
     CHR 0xBD, CHR 0xD0, CHR 0xB0, CHR 0xD1, CHR 0x87, CHR 0xD0, CHR 0xB0, CHR 0xD0,
     CHR 0xBB] @ '' '' @ [CHR 0xD1, CHR 0x81, CHR 0xD0, CHR 0xB2, CHR 0xD0, CHR 0xBE,
     CHR 0xD1, CHR 0x8E] @ '' '' @ [CHR 0xD1, CHR 0x80, CHR 0xD0, CHR 0xB0, CHR 0xD0,
     CHR 0xB1, CHR 0xD0, CHR 0xBE, CHR 0xD1, CHR 0x82, CHR 0xD1, CHR 0x83] @ ''!''"


text \<open>
  line 66: \<^verbatim>\<open>json.JSONDecodeError\<close> takes three arguments (message, document,
  position). The \<^verbatim>\<open>raise\<close> of line 66 gives it one, so constructing the exception
  fails, and what leaves \<^verbatim>\<open>get_api_answer\<close> is the interpreter's \<^verbatim>\<open>TypeError\<close>
  (CPython 3.11 wording).
\<close>

definition text_bad_raise :: string where
  "text_bad_raise =
     ''JSONDecodeError.__init__() missing 2 required positional arguments: ''
     @ quoted ''doc'' @ '' and '' @ quoted ''pos''"

text \<open>\<^verbatim>\<open>HOMEWORK_STATUSES\<close>, lines 27 to 31.\<close>

definition HOMEWORK_STATUSES :: "string \<Rightarrow> string option" where
  "HOMEWORK_STATUSES =
     [''approved'' \<mapsto> verdict_approved,
      ''reviewing'' \<mapsto> verdict_reviewing,
      ''rejected'' \<mapsto> verdict_rejected]"

text \<open>
  Looking a value up in \<^verbatim>\<open>HOMEWORK_STATUSES\<close> (the test of line 98 and the
  subscript of line 100): a list or a dict cannot be hashed, a string is looked up, and
  no other value equals a key.
\<close>

definition lookup_status :: "json \<Rightarrow> exn + string option" where
  "lookup_status v =
     (case v of
        JStr s \<Rightarrow> Inr (HOMEWORK_STATUSES s)
      | JList xs \<Rightarrow> Inl (TypeError (''unhashable type: '' @ quoted ''list''))
      | JDict d \<Rightarrow> Inl (TypeError (''unhashable type: '' @ quoted ''dict''))
      | _ \<Rightarrow> Inr None)"

section \<open>The world outside the program\<close>

text \<open>
  What \<^verbatim>\<open>requests.get\<close> and \<^verbatim>\<open>.json()\<close> give: a transport failure with its
  description, or a response with a status code and a body that decodes or does not.
\<close>

datatype body = Json json | NotJson

datatype reply = RequestException string | Response int body

text \<open>
  One iteration of the loop sees: the clock, the service (a reply for the
  \<^verbatim>\<open>from_date\<close> it is asked with), and whether Telegram accepts the message of
  line 129 and the message of line 138.
\<close>

record env =
  time_now :: int
  requests_get :: "json \<Rightarrow> reply"
  bot_status_ok :: bool
  bot_error_ok :: bool

text \<open>What the program does to the world, in order.\<close>

datatype notice = StatusNotice | ErrorNotice

datatype event =
    Request json
  | Send notice string bool
  | Sleep nat

section \<open>The functions of the module\<close>

text \<open>
  \<^verbatim>\<open>send_message\<close>, lines 34 to 42. The argument \<open>delivered\<close> stands for the bot: whether
  \<^verbatim>\<open>bot.send_message\<close> returns (otherwise it raises \<^verbatim>\<open>TelegramError\<close>).
\<close>

definition send_message :: "bool \<Rightarrow> string \<Rightarrow> exn + unit" where
  "send_message delivered message =
     (if delivered then Inr () else Inl (SendMessageException text_send_failed))"

text \<open>\<^verbatim>\<open>get_api_answer\<close>, lines 45 to 66.\<close>

definition get_api_answer ::
  "(json \<Rightarrow> string) \<Rightarrow> env \<Rightarrow> json \<Rightarrow> event list \<times> (exn + json)" where
  "get_api_answer fmt world current_timestamp =
     (let timestamp =
            (if truthy current_timestamp then current_timestamp else JInt (time_now world))
      in ([Request timestamp],
          case requests_get world timestamp of
            RequestException error \<Rightarrow> Inl (APIerrorException (text_request_failed @ error))
          | Response status_code content \<Rightarrow>
              if status_code \<noteq> 200
              then Inl (Exception (text_bad_status @ py_format fmt (JInt status_code)))
              else (case content of
                      Json v \<Rightarrow> Inr v
                    | NotJson \<Rightarrow> Inl (TypeError text_bad_raise))))"

text \<open>
  \<^verbatim>\<open>check_response\<close>, lines 69 to 85. The subscript of line 71 comes before the test
  of line 74, and the value returned is the whole \<^verbatim>\<open>response['homeworks']\<close>.
\<close>

definition check_response :: "(json \<Rightarrow> string) \<Rightarrow> json \<Rightarrow> exn + json" where
  "check_response fmt response =
     (case getitem_str response ''homeworks'' of
        Inl e \<Rightarrow> Inl e
      | Inr listed \<Rightarrow>
          if listed = JList [] then Inl (TypeError text_empty_list)
          else (case contains_str ''homeworks'' response of
            Inl e \<Rightarrow> Inl e
          | Inr present \<Rightarrow>
              if \<not> present then Inl (ValueError text_no_homeworks_key)
              else (case getitem_str response ''homeworks'' of
                Inl e \<Rightarrow> Inl e
              | Inr homework \<Rightarrow>
                  (case getitem_0 homework of
                     Inl e \<Rightarrow> Inl e
                   | Inr first \<Rightarrow>
                       if first = JNull then Inl (ValueError text_no_list)
                       else if \<not> isinstance_dict first
                       then Inl (TypeError (text_not_dict_pre @ py_format fmt homework
                                            @ text_not_dict_post))
                       else Inr homework))))"

text \<open>\<^verbatim>\<open>parse_status\<close>, lines 88 to 101.\<close>

definition parse_status :: "(json \<Rightarrow> string) \<Rightarrow> json \<Rightarrow> exn + string" where
  "parse_status fmt homework =
     (case contains_str ''homework_name'' homework of
        Inl e \<Rightarrow> Inl e
      | Inr has_name \<Rightarrow>
          if \<not> has_name then Inl (KeyError (quoted text_no_name))
          else (case contains_str ''status'' homework of
            Inl e \<Rightarrow> Inl e
          | Inr has_status \<Rightarrow>
              if \<not> has_status then Inl (Exception text_no_status)
              else (case getitem_str homework ''homework_name'' of
                Inl e \<Rightarrow> Inl e
              | Inr homework_name \<Rightarrow>
                  (case getitem_str homework ''status'' of
                     Inl e \<Rightarrow> Inl e
                   | Inr homework_status \<Rightarrow>
                       (case lookup_status homework_status of
                          Inl e \<Rightarrow> Inl e
                        | Inr None \<Rightarrow>
                            Inl (Exception (text_unknown_status
                                            @ py_format fmt homework_status))
                        | Inr (Some verdict) \<Rightarrow>
                            Inr (text_changed_pre @ py_format fmt homework_name
                                 @ text_changed_mid @ verdict))))))"

section \<open>The loop of \<^verbatim>\<open>main\<close>\<close>

text \<open>The three variables the loop owns (lines 120 to 122).\<close>

record state =
  current_timestamp :: json
  status_message :: string
  error_message :: string

definition initial_state :: "int \<Rightarrow> state" where
  "initial_state now =
     \<lparr>current_timestamp = JInt now, status_message = [], error_message = []\<rparr>"

text \<open>
  Lines 128 to 133: the comparison with the last status message and the send. A part of
  the loop body returns the events, the variables as they are when it is left, and the
  exception that leaves it, if any.
\<close>

definition status_step :: "env \<Rightarrow> state \<Rightarrow> string \<Rightarrow> event list \<times> state \<times> exn option" where
  "status_step world st status =
     (if status \<noteq> status_message st
      then (case send_message (bot_status_ok world) status of
              Inl e \<Rightarrow> ([Send StatusNotice status False], st, Some e)
            | Inr u \<Rightarrow> ([Send StatusNotice status True], st\<lparr>status_message := status\<rparr>, None))
      else ([], st, None))"

text \<open>Lines 125 to 133: the body of the \<^verbatim>\<open>try\<close>.\<close>

definition try_body ::
  "(json \<Rightarrow> string) \<Rightarrow> env \<Rightarrow> state \<Rightarrow> event list \<times> state \<times> exn option" where
  "try_body fmt world st =
     (case get_api_answer fmt world (current_timestamp st) of
        (evs, Inl e) \<Rightarrow> (evs, st, Some e)
      | (evs, Inr response) \<Rightarrow>
          (case dict_get response ''current_date'' of
             Inl e \<Rightarrow> (evs, st, Some e)
           | Inr date \<Rightarrow>
               (let st1 = st\<lparr>current_timestamp := date\<rparr> in
                case check_response fmt response of
                  Inl e \<Rightarrow> (evs, st1, Some e)
                | Inr homework \<Rightarrow>
                    (case parse_status fmt homework of
                       Inl e \<Rightarrow> (evs, st1, Some e)
                     | Inr status \<Rightarrow>
                         (case status_step world st1 status of
                            (evs2, st2, r) \<Rightarrow> (evs @ evs2, st2, r))))))"

text \<open>Lines 134 to 139: the handler.\<close>

definition failure_message :: "string \<Rightarrow> string" where
  "failure_message description = text_failure_pre @ description"

definition except_handler :: "env \<Rightarrow> state \<Rightarrow> exn \<Rightarrow> event list \<times> state \<times> exn option" where
  "except_handler world st error =
     (let message = failure_message (str_exn error) in
      if message \<noteq> error_message st
      then (case send_message (bot_error_ok world) message of
              Inl e \<Rightarrow> ([Send ErrorNotice message False], st, Some e)
            | Inr u \<Rightarrow> ([Send ErrorNotice message True], st\<lparr>error_message := message\<rparr>, None))
      else ([], st, None))"

text \<open>
  Lines 124 to 141, one iteration: \<^verbatim>\<open>try\<close>, \<^verbatim>\<open>except\<close>, \<^verbatim>\<open>finally\<close>. The
  \<^verbatim>\<open>finally\<close> sleeps on every path; an exception raised inside the handler is not
  caught by anything and leaves the loop after the sleep (\<open>Inl\<close>).
\<close>

definition cycle :: "(json \<Rightarrow> string) \<Rightarrow> env \<Rightarrow> state \<Rightarrow> event list \<times> (exn + state)" where
  "cycle fmt world st =
     (case try_body fmt world st of
        (evs, st1, None) \<Rightarrow> (evs @ [Sleep RETRY_TIME], Inr st1)
      | (evs, st1, Some error) \<Rightarrow>
          (case except_handler world st1 error of
             (evs2, st2, None) \<Rightarrow> (evs @ evs2 @ [Sleep RETRY_TIME], Inr st2)
           | (evs2, st2, Some e) \<Rightarrow> (evs @ evs2 @ [Sleep RETRY_TIME], Inl e)))"

text \<open>
  Line 123, \<^verbatim>\<open>while True\<close>: the iterations for the worlds given, one after the
  other. An exception that leaves an iteration ends the process; no later world is
  looked at.
\<close>

fun run :: "(json \<Rightarrow> string) \<Rightarrow> state \<Rightarrow> env list \<Rightarrow> event list \<times> (exn + state)" where
  "run fmt st [] = ([], Inr st)"
| "run fmt st (world # worlds) =
     (case cycle fmt world st of
        (evs, Inl e) \<Rightarrow> (evs, Inl e)
      | (evs, Inr st1) \<Rightarrow>
          (case run fmt st1 worlds of (evs2, r) \<Rightarrow> (evs @ evs2, r)))"

section \<open>Reading a run\<close>

text \<open>The \<^verbatim>\<open>from_date\<close> the fetch of an iteration sends (line 47).\<close>

definition from_date :: "env \<Rightarrow> state \<Rightarrow> json" where
  "from_date world st =
     (if truthy (current_timestamp st) then current_timestamp st else JInt (time_now world))"

text \<open>The messages handed to Telegram from one of the two call sites, in order.\<close>

fun sent_by :: "notice \<Rightarrow> event list \<Rightarrow> string list" where
  "sent_by n [] = []"
| "sent_by n (Send k message delivered # evs) =
     (if k = n then message # sent_by n evs else sent_by n evs)"
| "sent_by n (Request t # evs) = sent_by n evs"
| "sent_by n (Sleep t # evs) = sent_by n evs"

text \<open>The \<^verbatim>\<open>from_date\<close> of each request, in order.\<close>

fun requests :: "event list \<Rightarrow> json list" where
  "requests [] = []"
| "requests (Request t # evs) = t # requests evs"
| "requests (Send k message delivered # evs) = requests evs"
| "requests (Sleep t # evs) = requests evs"

text \<open>
  A stretch of iterations that all fail with the error described by \<open>D\<close>: the body
  of the \<^verbatim>\<open>try\<close> of each iteration raises an error whose description is \<open>D\<close>.
\<close>

fun failing_with :: "(json \<Rightarrow> string) \<Rightarrow> string \<Rightarrow> state \<Rightarrow> env list \<Rightarrow> bool" where
  "failing_with fmt D st [] = True"
| "failing_with fmt D st (world # worlds) =
     ((case snd (snd (try_body fmt world st)) of
         None \<Rightarrow> False
       | Some error \<Rightarrow> str_exn error = D)
      \<and> (case snd (cycle fmt world st) of
           Inl e \<Rightarrow> True
         | Inr st1 \<Rightarrow> failing_with fmt D st1 worlds))"

section \<open>Example inputs\<close>

text \<open>
  A world whose service gives the same reply whatever \<^verbatim>\<open>from_date\<close> it is
  asked with.
\<close>

definition serving :: "int \<Rightarrow> reply \<Rightarrow> bool \<Rightarrow> bool \<Rightarrow> env" where
  "serving now answer status_ok error_ok =
     \<lparr>time_now = now, requests_get = (\<lambda>asked. answer),
      bot_status_ok = status_ok, bot_error_ok = error_ok\<rparr>"

text \<open>
  The examples interpolate strings only, so the interpreter's \<^verbatim>\<open>str\<close> of other
  values is never consulted in them; they are stated with the formatter that gives the
  name of the value's type.
\<close>

definition no_fmt :: "json \<Rightarrow> string" where
  "no_fmt v = type_name v"

text \<open>
  The record \<^verbatim>\<open>{"homework_name": "hw1", "status": "approved"}\<close>, the payload
  \<^verbatim>\<open>{"homeworks": [that record], "current_date": 1000}\<close>, the message the spec
  expects for it, and the message of line 101 for it.
\<close>

definition hw1_record :: json where
  "hw1_record = JDict [(''homework_name'', JStr ''hw1''), (''status'', JStr ''approved'')]"

definition hw1_payload :: json where
  "hw1_payload = JDict [(''homeworks'', JList [hw1_record]), (''current_date'', JInt 1000)]"

definition hw1_expected :: string where
  "hw1_expected =
     ''Changed review status of '' @ [CHR 0x22] @ ''hw1'' @ [CHR 0x22] @ ''. ''
     @ verdict_approved"

definition hw1_message :: string where
  "hw1_message = text_changed_pre @ ''hw1'' @ text_changed_mid @ verdict_approved"

text \<open>The payload \<^verbatim>\<open>{"homeworks": []}\<close>: an empty list and no \<^verbatim>\<open>current_date\<close>.\<close>

definition nothing_payload :: json where
  "nothing_payload = JDict [(''homeworks'', JList [])]"


section \<open>Facts about the parts of the loop\<close>

lemma failure_message_nonempty: "failure_message d \<noteq> []"
  by (simp add: failure_message_def text_failure_pre_def)

lemma failure_message_eq: "(failure_message a = failure_message b) = (a = b)"
  by (simp add: failure_message_def)

lemma parse_status_list: "parse_status fmt (JList xs) \<noteq> Inr status"
  by (simp add: parse_status_def contains_str_def getitem_str_def)

lemma check_response_list:
  assumes "check_response fmt response = Inr homework"
  shows "\<exists>xs. homework = JList xs"
  using assms
  by (auto simp: check_response_def getitem_0_def
           split: sum.splits if_splits json.splits list.splits)

lemma check_response_no_key:
  assumes "map_of d ''homeworks'' = None"
  shows "check_response fmt (JDict d) = Inl (KeyError (quoted ''homeworks''))"
  using assms by (simp add: check_response_def getitem_str_def)

lemma check_response_empty:
  assumes "map_of d ''homeworks'' = Some (JList [])"
  shows "check_response fmt (JDict d) = Inl (TypeError text_empty_list)"
  using assms by (simp add: check_response_def getitem_str_def)

lemma get_api_answer_eq:
  "get_api_answer fmt world (current_timestamp st) =
     ([Request (from_date world st)],
      case requests_get world (from_date world st) of
        RequestException error \<Rightarrow> Inl (APIerrorException (text_request_failed @ error))
      | Response status_code content \<Rightarrow>
          if status_code \<noteq> 200
          then Inl (Exception (text_bad_status @ py_format fmt (JInt status_code)))
          else (case content of Json v \<Rightarrow> Inr v | NotJson \<Rightarrow> Inl (TypeError text_bad_raise)))"
  by (simp add: get_api_answer_def from_date_def Let_def)

text \<open>
  What \<^const>\<open>check_response\<close> returns is a list, and \<^const>\<open>parse_status\<close> fails on
  a list: the body of the \<^verbatim>\<open>try\<close> always raises, after exactly one request, and
  never reaches the comparison of line 128.
\<close>

lemma try_body_raises:
  "\<exists>sa error. try_body fmt world st = ([Request (from_date world st)], sa, Some error)
     \<and> error_message sa = error_message st \<and> status_message sa = status_message st"
proof -
  obtain r where g: "get_api_answer fmt world (current_timestamp st) = ([Request (from_date world st)], r)"
    by (simp add: get_api_answer_eq)
  show ?thesis
  proof (cases r)
    case (Inl e)
    with g show ?thesis by (simp add: try_body_def)
  next
    case (Inr response)
    show ?thesis
    proof (cases "dict_get response ''current_date''")
      case (Inl e)
      with g Inr show ?thesis by (simp add: try_body_def)
    next
      case date: (Inr date)
      show ?thesis
      proof (cases "check_response fmt response")
        case (Inl e)
        with g Inr date show ?thesis by (simp add: try_body_def)
      next
        case hw: (Inr homework)
        then obtain xs where "homework = JList xs" using check_response_list by blast
        then obtain e where "parse_status fmt homework = Inl e"
          using parse_status_list by (cases "parse_status fmt homework") auto
        with g Inr date hw show ?thesis by (simp add: try_body_def)
      qed
    qed
  qed
qed

lemma cycle_sends_no_status: "sent_by StatusNotice (fst (cycle fmt world st)) = []"
proof -
  obtain sa error where
    tb: "try_body fmt world st = ([Request (from_date world st)], sa, Some error)"
    using try_body_raises [of fmt world st] by blast
  then show ?thesis
    by (simp add: cycle_def except_handler_def send_message_def Let_def)
qed

lemma cycle_suppressed:
  assumes "try_body fmt world st = (evs, sa, Some error)"
      and "failure_message (str_exn error) = error_message sa"
  shows "cycle fmt world st = (evs @ [Sleep RETRY_TIME], Inr sa)"
  using assms by (simp add: cycle_def except_handler_def Let_def)

lemma cycle_reported:
  assumes "try_body fmt world st = (evs, sa, Some error)"
      and "failure_message (str_exn error) \<noteq> error_message sa"
      and "bot_error_ok world"
  shows "cycle fmt world st =
           (evs @ [Send ErrorNotice (failure_message (str_exn error)) True, Sleep RETRY_TIME],
            Inr (sa\<lparr>error_message := failure_message (str_exn error)\<rparr>))"
  using assms by (simp add: cycle_def except_handler_def send_message_def Let_def)

lemma cycle_crashed:
  assumes "try_body fmt world st = (evs, sa, Some error)"
      and "failure_message (str_exn error) \<noteq> error_message sa"
      and "\<not> bot_error_ok world"
  shows "cycle fmt world st =
           (evs @ [Send ErrorNotice (failure_message (str_exn error)) False, Sleep RETRY_TIME],
            Inl (SendMessageException text_send_failed))"
  using assms by (simp add: cycle_def except_handler_def send_message_def Let_def)



lemma line_74_is_dead:
  "check_response fmt response \<noteq> Inl (ValueError text_no_homeworks_key)"
proof -
  have t: "text_no_list \<noteq> text_no_homeworks_key"
    by (simp add: text_no_list_def text_no_homeworks_key_def)
  show ?thesis
    by (cases response)
       (auto simp: check_response_def getitem_str_def contains_str_def getitem_0_def t
             split: sum.splits option.splits if_splits list.splits json.splits)
qed

lemma try_body_fetched:
  assumes "requests_get world (from_date world st) = Response 200 (Json response)"
      and "dict_get response ''current_date'' = Inr date"
  shows "\<exists>error. try_body fmt world st =
           ([Request (from_date world st)], st\<lparr>current_timestamp := date\<rparr>, Some error)"
proof (cases "check_response fmt response")
  case (Inl e)
  with assms show ?thesis by (simp add: try_body_def get_api_answer_eq)
next
  case hw: (Inr homework)
  then obtain xs where "homework = JList xs" using check_response_list by blast
  then obtain e where "parse_status fmt homework = Inl e"
    using parse_status_list by (cases "parse_status fmt homework") auto
  with assms hw show ?thesis by (simp add: try_body_def get_api_answer_eq)
qed

lemma try_body_transport:
  assumes "requests_get world (from_date world st) = RequestException err"
  shows "try_body fmt world st =
           ([Request (from_date world st)], st,
            Some (APIerrorException (text_request_failed @ err)))"
  using assms by (simp add: try_body_def get_api_answer_eq)

lemma cycle_state:
  assumes "try_body fmt world st = (evs, sa, Some error)"
      and "cycle fmt world st = (cevs, Inr st1)"
  shows "st1 = sa\<lparr>error_message := failure_message (str_exn error)\<rparr>"
proof (cases "failure_message (str_exn error) = error_message sa")
  case True
  with assms cycle_suppressed [OF assms(1) True] show ?thesis by simp
next
  case False
  show ?thesis
  proof (cases "bot_error_ok world")
    case True
    with assms cycle_reported [OF assms(1) False True] show ?thesis by simp
  next
    case no: False
    with assms cycle_crashed [OF assms(1) False no] show ?thesis by simp
  qed
qed

lemma sent_by_append: "sent_by n (xs @ ys) = sent_by n xs @ sent_by n ys"
  by (induction n xs rule: sent_by.induct) auto

lemma requests_append: "requests (xs @ ys) = requests xs @ requests ys"
  by (induction xs rule: requests.induct) auto

lemma cycle_error_notes:
  assumes "try_body fmt world st = (evs, sa, Some error)"
      and "sent_by ErrorNotice evs = []"
  shows "sent_by ErrorNotice (fst (cycle fmt world st)) =
           (if failure_message (str_exn error) = error_message sa then []
            else [failure_message (str_exn error)])"
proof -
  note app = sent_by_append
  show ?thesis
  proof (cases "failure_message (str_exn error) = error_message sa")
    case True
    with assms cycle_suppressed [OF assms(1) True] show ?thesis by (simp add: app)
  next
    case False
    show ?thesis
    proof (cases "bot_error_ok world")
      case True
      with assms cycle_reported [OF assms(1) False True] False show ?thesis by (simp add: app)
    next
      case no: False
      with assms cycle_crashed [OF assms(1) False no] False show ?thesis by (simp add: app)
    qed
  qed
qed

lemma run_continues:
  assumes "cycle fmt world st = (evs, Inr st1)"
  shows "run fmt st (world # worlds) = (evs @ fst (run fmt st1 worlds), snd (run fmt st1 worlds))"
  using assms by (simp split: prod.splits)

lemma run_ends:
  assumes "cycle fmt world st = (evs, Inl e)"
  shows "run fmt st (world # worlds) = (evs, Inl e)"
  using assms by simp


lemma from_date_serving:
  "from_date (serving now answer s_ok e_ok) (initial_state t) = (if t = 0 then JInt now else JInt t)"
  by (simp add: from_date_def serving_def initial_state_def)

lemma nothing_try_body:
  "try_body fmt (serving now (Response 200 (Json nothing_payload)) s_ok e_ok) st =
     ([Request (from_date (serving now (Response 200 (Json nothing_payload)) s_ok e_ok) st)],
      st\<lparr>current_timestamp := JNull\<rparr>, Some (TypeError text_empty_list))"
proof -
  have d: "dict_get nothing_payload ''current_date'' = Inr JNull"
    by (simp add: dict_get_def nothing_payload_def)
  have c: "check_response fmt nothing_payload = Inl (TypeError text_empty_list)"
    by (simp add: nothing_payload_def check_response_empty)
  show ?thesis
    by (simp add: try_body_def get_api_answer_eq serving_def d c)
qed

lemma try_body_frame:
  assumes "try_body fmt world st = (evs, sa, r)"
  shows "error_message sa = error_message st \<and> sent_by ErrorNotice evs = []"
  using assms
  by (auto simp: try_body_def get_api_answer_eq status_step_def send_message_def Let_def
           split: sum.splits prod.splits if_splits)

lemma cycle_completed:
  assumes "try_body fmt world st = (evs, sa, None)"
  shows "cycle fmt world st = (evs @ [Sleep RETRY_TIME], Inr sa)"
  using assms by (simp add: cycle_def)

lemma cycle_requests: "requests (fst (cycle fmt world st)) = [from_date world st]"
proof -
  obtain sa error where tb: "try_body fmt world st = ([Request (from_date world st)], sa, Some error)"
    using try_body_raises [of fmt world st] by blast
  show ?thesis
  proof (cases "failure_message (str_exn error) = error_message sa")
    case True
    from cycle_suppressed [OF tb True] show ?thesis by simp
  next
    case False
    show ?thesis
    proof (cases "bot_error_ok world")
      case True
      from cycle_reported [OF tb False True] show ?thesis by simp
    next
      case no: False
      from cycle_crashed [OF tb False no] show ?thesis by simp
    qed
  qed
qed

lemma delivered_report_is_recorded:
  assumes "cycle fmt world st = (cevs, Inr st1)"
      and "Send ErrorNotice message True \<in> set cevs"
  shows "error_message st1 = message"
proof -
  obtain evs sa r where tb: "try_body fmt world st = (evs, sa, r)"
    by (cases "try_body fmt world st") auto
  from try_body_frame [OF tb] have none: "sent_by ErrorNotice evs = []" by simp
  have evs: "Send ErrorNotice message True \<notin> set evs"
    using none by (induction evs rule: sent_by.induct) (auto split: if_splits)
  show ?thesis
  proof (cases r)
    case None
    with tb cycle_completed [of fmt world st evs sa] assms evs show ?thesis by auto
  next
    case (Some error)
    with tb have tb': "try_body fmt world st = (evs, sa, Some error)" by simp
    show ?thesis
    proof (cases "failure_message (str_exn error) = error_message sa")
      case True
      from cycle_suppressed [OF tb' True] assms evs show ?thesis by auto
    next
      case False
      show ?thesis
      proof (cases "bot_error_ok world")
        case True
        from cycle_reported [OF tb' False True] assms evs show ?thesis by auto
      next
        case no: False
        from cycle_crashed [OF tb' False no] assms show ?thesis by simp
      qed
    qed
  qed
qed

lemma failing_with_run:
  assumes "error_message st = failure_message D"
      and "failing_with fmt D st worlds"
  shows "sent_by ErrorNotice (fst (run fmt st worlds)) = []
         \<and> (\<exists>st'. snd (run fmt st worlds) = Inr st' \<and> error_message st' = failure_message D)"
  using assms
proof (induction worlds arbitrary: st)
  case Nil
  then show ?case by simp
next
  case (Cons world worlds)
  obtain evs sa r where tb: "try_body fmt world st = (evs, sa, r)"
    by (cases "try_body fmt world st") auto
  from try_body_frame [OF tb] Cons.prems(1)
  have em: "error_message sa = failure_message D" and none: "sent_by ErrorNotice evs = []"
    by simp_all
  from tb Cons.prems(2) obtain error where r: "r = Some error" and d: "str_exn error = D"
    by (cases r) auto
  from em d have "failure_message (str_exn error) = error_message sa" by simp
  with tb r have cy: "cycle fmt world st = (evs @ [Sleep RETRY_TIME], Inr sa)"
    by (simp add: cycle_suppressed)
  with Cons.prems(2) have q: "failing_with fmt D sa worlds" by simp
  from Cons.IH [OF em q] run_continues [OF cy, of worlds] none
  show ?case by (simp del: run.simps add: sent_by_append)
qed

text \<open>
  A delivered report of another error takes the place of the last error message, so the
  error reported before it is reported again when it comes back.
\<close>

lemma other_error_is_reported_again:
  assumes "try_body fmt world1 st = (evs1, sa, Some error1)"
      and "str_exn error1 \<noteq> D"
      and "cycle fmt world1 st = (cevs1, Inr st1)"
      and "try_body fmt world2 st1 = (evs2, sb, Some error2)"
      and "str_exn error2 = D"
  shows "sent_by ErrorNotice (fst (cycle fmt world2 st1)) = [failure_message D]"
proof -
  from cycle_state [OF assms(1) assms(3)]
  have "error_message st1 = failure_message (str_exn error1)" by simp
  with try_body_frame [OF assms(4)] assms(2) assms(5)
  have ne: "failure_message (str_exn error2) \<noteq> error_message sb"
    and none: "sent_by ErrorNotice evs2 = []"
    by (simp_all add: failure_message_eq)
  from cycle_error_notes [OF assms(4) none] ne assms(5) show ?thesis by simp
qed

section \<open>The payload with the record hw1 (claim C1)\<close>

lemma hw1_check: "check_response fmt hw1_payload = Inr (JList [hw1_record])"
  by (simp add: check_response_def hw1_payload_def hw1_record_def getitem_str_def
        contains_str_def getitem_0_def)

lemma hw1_parse_record: "parse_status fmt hw1_record = Inr hw1_message"
  by (simp add: parse_status_def hw1_record_def contains_str_def getitem_str_def
        lookup_status_def HOMEWORK_STATUSES_def py_format_def hw1_message_def)

lemma hw1_parse_list:
  "parse_status fmt (JList [hw1_record]) = Inl (KeyError (quoted text_no_name))"
  by (simp add: parse_status_def hw1_record_def contains_str_def)

lemma hw1_try_body:
  "try_body fmt (serving now (Response 200 (Json hw1_payload)) s_ok e_ok) st =
     ([Request (from_date (serving now (Response 200 (Json hw1_payload)) s_ok e_ok) st)],
      st\<lparr>current_timestamp := JInt 1000\<rparr>, Some (KeyError (quoted text_no_name)))"
proof -
  have d: "dict_get hw1_payload ''current_date'' = Inr (JInt 1000)"
    by (simp add: dict_get_def hw1_payload_def)
  show ?thesis
    by (simp add: try_body_def get_api_answer_eq serving_def d hw1_check hw1_parse_list)
qed

lemma hw1_differs: "hw1_message \<noteq> hw1_expected"
  by (simp add: hw1_message_def hw1_expected_def text_changed_pre_def)

lemma failure_differs: "failure_message d \<noteq> hw1_expected"
  by (simp add: failure_message_def hw1_expected_def text_failure_pre_def)

text \<open>
  Claim C1, as stated, fails. For the payload
  \<^verbatim>\<open>{"homeworks": [{"homework_name": "hw1", "status": "approved"}], "current_date": 1000}\<close>,
  from the initial state and with Telegram accepting every message, the iteration sends
  no status message at all: \<^verbatim>\<open>main\<close> hands \<^verbatim>\<open>parse_status\<close> the list that
  \<^verbatim>\<open>check_response\<close> returns, not its first record, so \<^verbatim>\<open>parse_status\<close>
  raises \<^verbatim>\<open>KeyError\<close> and the one message sent is the failure report. Nor is the
  message the spec expects what \<^verbatim>\<open>parse_status\<close> gives for the record itself: the
  template of line 101 is Russian.
\<close>

theorem C1_counterexample:
  "sent_by StatusNotice
     (fst (cycle no_fmt (serving 5 (Response 200 (Json hw1_payload)) True True) (initial_state 5)))
     = []
   \<and> sent_by ErrorNotice
     (fst (cycle no_fmt (serving 5 (Response 200 (Json hw1_payload)) True True) (initial_state 5)))
     = [failure_message (quoted text_no_name)]
   \<and> failure_message (quoted text_no_name) \<noteq> hw1_expected
   \<and> parse_status no_fmt hw1_record \<noteq> Inr hw1_expected"
proof -
  have ne: "failure_message (str_exn (KeyError (quoted text_no_name)))
              \<noteq> error_message ((initial_state 5)\<lparr>current_timestamp := JInt 1000\<rparr>)"
    by (simp add: initial_state_def failure_message_nonempty)
  have ok: "bot_error_ok (serving 5 (Response 200 (Json hw1_payload)) True True)"
    by (simp add: serving_def)
  show ?thesis
    by (simp add: cycle_reported [OF hw1_try_body ne ok] failure_differs hw1_parse_record
          hw1_differs)
qed

text \<open>
  Claim C1, amended: for the record of that payload \<^verbatim>\<open>parse_status\<close> gives the
  message of line 101 (Russian template, verdict of \<^verbatim>\<open>approved\<close>);
  \<^verbatim>\<open>check_response\<close> accepts the payload and returns its list of records; the
  iteration on the payload ends with the cursor at \<open>1000\<close>; and the comparison of
  lines 128 to 130, given that message and the empty last status message, sends it once
  and records it. What the whole iteration sends for the payload is left out.
\<close>

theorem C1_hw1_as_coded:
  "parse_status fmt hw1_record = Inr hw1_message
   \<and> check_response fmt hw1_payload = Inr (JList [hw1_record])
   \<and> (case snd (cycle fmt (serving now (Response 200 (Json hw1_payload)) s_ok True)
                   (initial_state now)) of
        Inl e \<Rightarrow> False
      | Inr st1 \<Rightarrow> current_timestamp st1 = JInt 1000)
   \<and> status_step (serving now (Response 200 (Json hw1_payload)) True e_ok)
         (initial_state now) hw1_message
       = ([Send StatusNotice hw1_message True],
          (initial_state now)\<lparr>status_message := hw1_message\<rparr>, None)"
proof -
  have "hw1_message \<noteq> []"
    by (simp add: hw1_message_def text_changed_pre_def)
  then have step: "status_step (serving now (Response 200 (Json hw1_payload)) True e_ok)
         (initial_state now) hw1_message
       = ([Send StatusNotice hw1_message True],
          (initial_state now)\<lparr>status_message := hw1_message\<rparr>, None)"
    by (simp add: status_step_def send_message_def initial_state_def serving_def)
  have ne: "failure_message (str_exn (KeyError (quoted text_no_name)))
              \<noteq> error_message ((initial_state now)\<lparr>current_timestamp := JInt 1000\<rparr>)"
    by (simp add: initial_state_def failure_message_nonempty)
  have ok: "bot_error_ok (serving now (Response 200 (Json hw1_payload)) s_ok True)"
    by (simp add: serving_def)
  have cursor: "case snd (cycle fmt (serving now (Response 200 (Json hw1_payload)) s_ok True)
                   (initial_state now)) of
        Inl e \<Rightarrow> False
      | Inr st1 \<Rightarrow> current_timestamp st1 = JInt 1000"
    by (simp add: cycle_reported [OF hw1_try_body ne ok])
  from step cursor show ?thesis
    by (simp add: hw1_parse_record hw1_check)
qed

section \<open>A failed error report (claim C2)\<close>

text \<open>
  Claim C2, as stated, fails. The service answers \<^verbatim>\<open>{"homeworks": []}\<close>, the
  iteration reports the error, and Telegram refuses the report: after the sleep the
  \<^verbatim>\<open>SendMessageException\<close> leaves the loop, and the second iteration never starts
  (the run of two iterations holds one request and one sleep).
\<close>

theorem C2_counterexample:
  "run no_fmt (initial_state 5)
     [serving 5 (Response 200 (Json nothing_payload)) True False,
      serving 605 (Response 200 (Json nothing_payload)) True True]
   = ([Request (JInt 5), Send ErrorNotice (failure_message text_empty_list) False, Sleep 600],
      Inl (SendMessageException text_send_failed))"
proof -
  have ne: "failure_message (str_exn (TypeError text_empty_list))
              \<noteq> error_message ((initial_state 5)\<lparr>current_timestamp := JNull\<rparr>)"
    by (simp add: initial_state_def failure_message_nonempty)
  have no: "\<not> bot_error_ok (serving 5 (Response 200 (Json nothing_payload)) True False)"
    by (simp add: serving_def)
  from run_ends [OF cycle_crashed [OF nothing_try_body ne no]]
  show ?thesis
    by (simp del: run.simps add: from_date_serving RETRY_TIME_def)
qed

text \<open>
  Claim C2, amended: when the notify of the error report fails, nothing catches the
  \<^verbatim>\<open>SendMessageException\<close>. The iteration still sleeps for the fixed interval, then
  the exception leaves the loop: the process ends and no later iteration starts.
\<close>

theorem C2_failed_report_ends_the_process:
  assumes "try_body fmt world st = (evs, sa, Some error)"
      and "failure_message (str_exn error) \<noteq> error_message st"
      and "\<not> bot_error_ok world"
  shows "cycle fmt world st =
           (evs @ [Send ErrorNotice (failure_message (str_exn error)) False, Sleep RETRY_TIME],
            Inl (SendMessageException text_send_failed))
         \<and> run fmt st (world # worlds) = cycle fmt world st"
proof -
  from try_body_frame [OF assms(1)]
  have "error_message sa = error_message st" by simp
  with assms(2) have ne: "failure_message (str_exn error) \<noteq> error_message sa" by simp
  note c = cycle_crashed [OF assms(1) ne assms(3)]
  from run_ends [OF c] c show ?thesis by simp
qed

theorem C2_witness:
  "run no_fmt (initial_state 5)
     [serving 5 (Response 200 NotJson) True False,
      serving 605 (Response 200 (Json hw1_payload)) True True]
   = ([Request (JInt 5), Send ErrorNotice (failure_message text_bad_raise) False, Sleep 600],
      Inl (SendMessageException text_send_failed))"
proof -
  have tb: "try_body no_fmt (serving 5 (Response 200 NotJson) True False) (initial_state 5) =
              ([Request (JInt 5)], initial_state 5, Some (TypeError text_bad_raise))"
    by (simp add: try_body_def get_api_answer_eq from_date_serving) (simp add: serving_def)
  have ne: "failure_message (str_exn (TypeError text_bad_raise)) \<noteq> error_message (initial_state 5)"
    by (simp add: initial_state_def failure_message_nonempty)
  have no: "\<not> bot_error_ok (serving 5 (Response 200 NotJson) True False)"
    by (simp add: serving_def)
  from C2_failed_report_ends_the_process [OF tb ne no]
  show ?thesis by (simp del: run.simps add: RETRY_TIME_def)
qed

section \<open>A response without \<^verbatim>\<open>current_date\<close> (claim C3)\<close>

text \<open>
  Claim C3, as stated, fails. The cursor is \<open>1000\<close>, the payload
  \<^verbatim>\<open>{"homeworks": []}\<close> has no \<^verbatim>\<open>current_date\<close>, and the clock of the next
  iteration reads \<open>1600\<close>: the first fetch asks from \<open>1000\<close>, the next one from
  \<open>1600\<close>, and the cursor in between is \<^verbatim>\<open>None\<close>.
\<close>

theorem C3_counterexample:
  "requests (fst (run no_fmt (initial_state 1000)
     [serving 1000 (Response 200 (Json nothing_payload)) True True,
      serving 1600 (Response 200 (Json nothing_payload)) True True]))
   = [JInt 1000, JInt 1600]
   \<and> snd (cycle no_fmt (serving 1000 (Response 200 (Json nothing_payload)) True True)
            (initial_state 1000))
   = Inr \<lparr>current_timestamp = JNull, status_message = [],
          error_message = failure_message text_empty_list\<rparr>"
proof -
  let ?w1 = "serving 1000 (Response 200 (Json nothing_payload)) True True"
  let ?w2 = "serving 1600 (Response 200 (Json nothing_payload)) True True"
  let ?s1 = "\<lparr>current_timestamp = JNull, status_message = [],
              error_message = failure_message text_empty_list\<rparr>"
  have ne: "failure_message (str_exn (TypeError text_empty_list))
              \<noteq> error_message ((initial_state 1000)\<lparr>current_timestamp := JNull\<rparr>)"
    by (simp add: initial_state_def failure_message_nonempty)
  have ok: "bot_error_ok ?w1" by (simp add: serving_def)
  have c1: "cycle no_fmt ?w1 (initial_state 1000) =
              ([Request (JInt 1000), Send ErrorNotice (failure_message text_empty_list) True,
                Sleep RETRY_TIME], Inr ?s1)"
    by (simp add: cycle_reported [OF nothing_try_body ne ok] from_date_serving)
       (simp add: initial_state_def)
  have eq: "failure_message (str_exn (TypeError text_empty_list))
              = error_message (?s1\<lparr>current_timestamp := JNull\<rparr>)"
    by simp
  have c2: "cycle no_fmt ?w2 ?s1 = ([Request (JInt 1600), Sleep RETRY_TIME], Inr ?s1)"
    by (simp add: cycle_suppressed [OF nothing_try_body eq]) (simp add: from_date_def serving_def)
  have "run no_fmt (initial_state 1000) [?w1, ?w2] =
          ([Request (JInt 1000), Send ErrorNotice (failure_message text_empty_list) True,
            Sleep RETRY_TIME, Request (JInt 1600), Sleep RETRY_TIME], Inr ?s1)"
    by (simp add: c1 c2)
  then show ?thesis by (simp add: c1)
qed

text \<open>
  Claim C3, amended: after a successful fetch whose payload has no \<^verbatim>\<open>current_date\<close>
  the cursor is \<^verbatim>\<open>None\<close> (what \<^verbatim>\<open>response.get\<close> gives for an absent key), and the
  fetch of the next iteration asks from the time its own clock reads.
\<close>

theorem C3_absent_date_unsets_the_cursor:
  assumes "requests_get world (from_date world st) = Response 200 (Json (JDict d))"
      and "map_of d ''current_date'' = None"
      and "cycle fmt world st = (evs, Inr st1)"
  shows "current_timestamp st1 = JNull
         \<and> from_date world2 st1 = JInt (time_now world2)
         \<and> requests (fst (cycle fmt world2 st1)) = [JInt (time_now world2)]"
proof -
  have "dict_get (JDict d) ''current_date'' = Inr JNull"
    using assms(2) by (simp add: dict_get_def)
  from try_body_fetched [OF assms(1) this]
  obtain error where tb: "try_body fmt world st =
      ([Request (from_date world st)], st\<lparr>current_timestamp := JNull\<rparr>, Some error)"
    by blast
  from cycle_state [OF tb assms(3)] have cur: "current_timestamp st1 = JNull" by simp
  then have fd: "from_date world2 st1 = JInt (time_now world2)"
    by (simp add: from_date_def)
  obtain sb e2 where tb2: "try_body fmt world2 st1 = ([Request (from_date world2 st1)], sb, Some e2)"
    using try_body_raises [of fmt world2 st1] by blast
  have "requests (fst (cycle fmt world2 st1)) = [from_date world2 st1]"
  proof (cases "failure_message (str_exn e2) = error_message sb")
    case True
    from cycle_suppressed [OF tb2 True] show ?thesis by simp
  next
    case False
    show ?thesis
    proof (cases "bot_error_ok world2")
      case True
      from cycle_reported [OF tb2 False True] show ?thesis by simp
    next
      case no: False
      from cycle_crashed [OF tb2 False no] show ?thesis by simp
    qed
  qed
  with cur fd show ?thesis by simp
qed

theorem C3_witness:
  "current_timestamp \<lparr>current_timestamp = JNull, status_message = [],
          error_message = failure_message (quoted text_no_name)\<rparr> = JNull
   \<and> requests (fst (cycle no_fmt (serving 1600 (Response 200 (Json hw1_payload)) True True)
        \<lparr>current_timestamp = JNull, status_message = [],
          error_message = failure_message (quoted text_no_name)\<rparr>)) = [JInt 1600]"
proof -
  let ?p = "JDict [(''homeworks'', JList [hw1_record])]"
  let ?w = "serving 1000 (Response 200 (Json ?p)) True True"
  let ?s1 = "\<lparr>current_timestamp = JNull, status_message = [],
              error_message = failure_message (quoted text_no_name)\<rparr>"
  have r0: "requests_get ?w (JInt 1000) = Response 200 (Json ?p)"
    by (simp add: serving_def)
  then have r: "requests_get ?w (from_date ?w (initial_state 1000)) = Response 200 (Json ?p)"
    by (simp add: from_date_serving)
  have k: "map_of [(''homeworks'', JList [hw1_record])] ''current_date'' = None"
    by simp
  have d: "dict_get ?p ''current_date'' = Inr JNull"
    by (simp add: dict_get_def)
  have c: "check_response no_fmt ?p = Inr (JList [hw1_record])"
    by (simp add: check_response_def hw1_record_def getitem_str_def contains_str_def
          getitem_0_def)
  have tb: "try_body no_fmt ?w (initial_state 1000) =
      ([Request (JInt 1000)], (initial_state 1000)\<lparr>current_timestamp := JNull\<rparr>,
       Some (KeyError (quoted text_no_name)))"
    by (simp add: try_body_def get_api_answer_eq r0 d c hw1_parse_list from_date_serving)
  have ne: "failure_message (str_exn (KeyError (quoted text_no_name)))
              \<noteq> error_message ((initial_state 1000)\<lparr>current_timestamp := JNull\<rparr>)"
    by (simp add: initial_state_def failure_message_nonempty)
  have ok: "bot_error_ok ?w" by (simp add: serving_def)
  have cy: "cycle no_fmt ?w (initial_state 1000) =
      ([Request (JInt 1000), Send ErrorNotice (failure_message (quoted text_no_name)) True,
        Sleep RETRY_TIME], Inr ?s1)"
    by (simp add: cycle_reported [OF tb ne ok]) (simp add: initial_state_def)
  from C3_absent_date_unsets_the_cursor [OF r k cy,
      of "serving 1600 (Response 200 (Json hw1_payload)) True True"]
  show ?thesis by (simp add: serving_def)
qed


section \<open>A payload without the key \<^verbatim>\<open>homeworks\<close> (claim C4)\<close>

text \<open>
  Claim C4 against the code. For the payload \<^verbatim>\<open>{"current_date": 1000}\<close> the
  subscript of line 71 raises \<^verbatim>\<open>KeyError\<close> (description \<^verbatim>\<open>'homeworks'\<close>) before
  the test of line 74 is reached; the \<^verbatim>\<open>ValueError\<close> of lines 74 to 76, the error
  written for the missing key, is not what \<^verbatim>\<open>check_response\<close> fails with.
\<close>

theorem C4_missing_key_raises_KeyError:
  "check_response no_fmt (JDict [(''current_date'', JInt 1000)])
     = Inl (KeyError (quoted ''homeworks''))
   \<and> check_response no_fmt (JDict [(''current_date'', JInt 1000)])
     \<noteq> Inl (ValueError text_no_homeworks_key)"
  by (simp add: check_response_no_key)

section \<open>The status notify in a run (claims C5 and C6)\<close>


text \<open>
  Claim C6 against the code. Two consecutive iterations get the payload of the record
  hw1, and Telegram accepts every message. The claim has exactly one status notify. The
  run makes none: each iteration raises the \<^verbatim>\<open>KeyError\<close> of line 93 (line 127 hands
  \<^verbatim>\<open>parse_status\<close> the list), the first one reports it, and the second one keeps
  quiet because the failure message is the last error message.
\<close>

theorem C6_two_cycles_make_no_status_notify:
  "run no_fmt (initial_state 5)
     [serving 5 (Response 200 (Json hw1_payload)) True True,
      serving 605 (Response 200 (Json hw1_payload)) True True]
   = ([Request (JInt 5), Send ErrorNotice (failure_message (quoted text_no_name)) True,
       Sleep 600, Request (JInt 1000), Sleep 600],
      Inr \<lparr>current_timestamp = JInt 1000, status_message = [],
           error_message = failure_message (quoted text_no_name)\<rparr>)
   \<and> sent_by StatusNotice (fst (run no_fmt (initial_state 5)
        [serving 5 (Response 200 (Json hw1_payload)) True True,
         serving 605 (Response 200 (Json hw1_payload)) True True])) = []"
proof -
  let ?w1 = "serving 5 (Response 200 (Json hw1_payload)) True True"
  let ?w2 = "serving 605 (Response 200 (Json hw1_payload)) True True"
  let ?m = "failure_message (quoted text_no_name)"
  let ?s1 = "\<lparr>current_timestamp = JInt 1000, status_message = [], error_message = ?m\<rparr>"
  have ne: "failure_message (str_exn (KeyError (quoted text_no_name)))
              \<noteq> error_message ((initial_state 5)\<lparr>current_timestamp := JInt 1000\<rparr>)"
    by (simp add: initial_state_def failure_message_nonempty)
  have ok: "bot_error_ok ?w1" by (simp add: serving_def)
  have c1: "cycle no_fmt ?w1 (initial_state 5) =
              ([Request (JInt 5), Send ErrorNotice ?m True, Sleep RETRY_TIME], Inr ?s1)"
    by (simp add: cycle_reported [OF hw1_try_body ne ok] from_date_serving)
       (simp add: initial_state_def)
  have eq: "failure_message (str_exn (KeyError (quoted text_no_name)))
              = error_message (?s1\<lparr>current_timestamp := JInt 1000\<rparr>)"
    by simp
  have c2: "cycle no_fmt ?w2 ?s1 = ([Request (JInt 1000), Sleep RETRY_TIME], Inr ?s1)"
    by (simp add: cycle_suppressed [OF hw1_try_body eq]) (simp add: from_date_def serving_def)
  have "run no_fmt (initial_state 5) [?w1, ?w2] =
          ([Request (JInt 5), Send ErrorNotice ?m True, Sleep RETRY_TIME,
            Request (JInt 1000), Sleep RETRY_TIME], Inr ?s1)"
    by (simp add: c1 c2)
  then show ?thesis by (simp del: run.simps add: RETRY_TIME_def)
qed

section \<open>The same error twice (claim C7)\<close>

text \<open>
  Claim C7: in an iteration whose \<^verbatim>\<open>try\<close> body raises, the error notification is
  attempted exactly when the failure message built from the error's description differs
  from the last error message. Of two consecutive iterations that raise errors with the
  same description, the second never notifies; when the failure message is new at the
  first of them, the two together make exactly one error notification.
\<close>

theorem C7_error_dedup:
  assumes "try_body fmt world1 st = (evs1, sa, Some error1)"
      and "cycle fmt world1 st = (cevs1, Inr st1)"
      and "try_body fmt world2 st1 = (evs2, sb, Some error2)"
      and "str_exn error2 = str_exn error1"
  shows "sent_by ErrorNotice (fst (cycle fmt world1 st)) =
           (if failure_message (str_exn error1) = error_message st then []
            else [failure_message (str_exn error1)])
       \<and> sent_by ErrorNotice (fst (cycle fmt world2 st1)) = []
       \<and> (failure_message (str_exn error1) \<noteq> error_message st \<longrightarrow>
            sent_by ErrorNotice (fst (cycle fmt world1 st) @ fst (cycle fmt world2 st1))
            = [failure_message (str_exn error1)])"
proof -
  from try_body_frame [OF assms(1)]
  have a: "error_message sa = error_message st" and n1: "sent_by ErrorNotice evs1 = []"
    by simp_all
  from try_body_frame [OF assms(3)]
  have b: "error_message sb = error_message st1" and n2: "sent_by ErrorNotice evs2 = []"
    by simp_all
  from cycle_state [OF assms(1) assms(2)]
  have "error_message st1 = failure_message (str_exn error1)" by simp
  with b assms(4) have same: "failure_message (str_exn error2) = error_message sb" by simp
  from cycle_error_notes [OF assms(1) n1] a
  have first: "sent_by ErrorNotice (fst (cycle fmt world1 st)) =
           (if failure_message (str_exn error1) = error_message st then []
            else [failure_message (str_exn error1)])"
    by simp
  from cycle_error_notes [OF assms(3) n2] same
  have second: "sent_by ErrorNotice (fst (cycle fmt world2 st1)) = []" by simp
  from first second show ?thesis by (simp add: sent_by_append)
qed

theorem C7_witness:
  "sent_by ErrorNotice
     (fst (cycle no_fmt (serving 5 (RequestException ''timeout'') True True) (initial_state 5))
      @ fst (cycle no_fmt (serving 605 (RequestException ''timeout'') True True)
          ((initial_state 5)\<lparr>error_message :=
             failure_message (text_request_failed @ ''timeout'')\<rparr>)))
   = [failure_message (text_request_failed @ ''timeout'')]"
proof -
  let ?w1 = "serving 5 (RequestException ''timeout'') True True"
  let ?w2 = "serving 605 (RequestException ''timeout'') True True"
  let ?e = "APIerrorException (text_request_failed @ ''timeout'')"
  let ?s1 = "(initial_state 5)\<lparr>error_message := failure_message (text_request_failed @ ''timeout'')\<rparr>"
  have r: "\<And>w s. requests_get ?w1 (from_date w s) = RequestException ''timeout''"
          "\<And>w s. requests_get ?w2 (from_date w s) = RequestException ''timeout''"
    by (simp_all add: serving_def)
  note tb1 = try_body_transport [of ?w1 "initial_state 5", OF r(1), of no_fmt]
  note tb2 = try_body_transport [of ?w2 ?s1, OF r(2), of no_fmt]
  have ne: "failure_message (str_exn ?e) \<noteq> error_message (initial_state 5)"
    by (simp add: initial_state_def failure_message_nonempty)
  have ok: "bot_error_ok ?w1" by (simp add: serving_def)
  have cy: "cycle no_fmt ?w1 (initial_state 5) =
      ([Request (from_date ?w1 (initial_state 5))] @
       [Send ErrorNotice (failure_message (str_exn ?e)) True, Sleep RETRY_TIME], Inr ?s1)"
    using cycle_reported [OF tb1 ne ok] by simp
  from C7_error_dedup [OF tb1 cy tb2] ne
  show ?thesis by simp
qed

section \<open>An empty list of homeworks (claim C8)\<close>

text \<open>
  Claim C8: for every payload whose key \<^verbatim>\<open>homeworks\<close> is present and maps to an
  empty list, \<^verbatim>\<open>check_response\<close> fails with the error of lines 71 to 73 (the spec's
  EmptyResultError: a \<^verbatim>\<open>TypeError\<close> with the text of line 72).
\<close>

theorem C8_empty_list_is_rejected:
  assumes "map_of d ''homeworks'' = Some (JList [])"
  shows "check_response fmt (JDict d) = Inl (TypeError text_empty_list)"
  using assms by (simp add: check_response_def getitem_str_def)

theorem C8_witness:
  "check_response no_fmt (JDict [(''current_date'', JInt 1000), (''homeworks'', JList [])])
   = Inl (TypeError text_empty_list)"
proof -
  have k: "map_of [(''current_date'', JInt 1000), (''homeworks'', JList [])] ''homeworks''
             = Some (JList [])"
    by simp
  from C8_empty_list_is_rejected [OF k] show ?thesis .
qed

section \<open>A transport failure (claim C9)\<close>

text \<open>
  Claim C9, as stated, fails. \<^verbatim>\<open>requests.get\<close> fails, and Telegram refuses the report
  of that failure: the \<^verbatim>\<open>SendMessageException\<close> ends the process after the sleep,
  and the next iteration is not attempted (one request in a run of two iterations).
\<close>

theorem C9_counterexample:
  "snd (cycle no_fmt (serving 5 (RequestException ''connection refused'') True False)
          (initial_state 5))
   = Inl (SendMessageException text_send_failed)
   \<and> requests (fst (run no_fmt (initial_state 5)
        [serving 5 (RequestException ''connection refused'') True False,
         serving 605 (RequestException ''connection refused'') True False]))
   = [JInt 5]"
proof -
  let ?w1 = "serving 5 (RequestException ''connection refused'') True False"
  let ?e = "APIerrorException (text_request_failed @ ''connection refused'')"
  have r: "requests_get ?w1 (from_date ?w1 (initial_state 5)) = RequestException ''connection refused''"
    by (simp add: serving_def)
  have ne: "failure_message (str_exn ?e) \<noteq> error_message (initial_state 5)"
    by (simp add: initial_state_def failure_message_nonempty)
  have no: "\<not> bot_error_ok ?w1" by (simp add: serving_def)
  note cy = cycle_crashed [OF try_body_transport [OF r] ne no]
  from cy run_ends [OF cy] show ?thesis
    by (simp del: run.simps add: from_date_serving)
qed

text \<open>
  Claim C9, amended: when \<^verbatim>\<open>requests.get\<close> fails in an iteration and the report of
  that failure is either suppressed (it equals the last error message) or delivered,
  the iteration ends with the sleep of the fixed interval, the process goes on, and the
  next iteration makes its request. (When the report is attempted and refused, the
  process ends: see claim C2.)
\<close>

theorem C9_transport_failure_is_survived:
  assumes "requests_get world (from_date world st) = RequestException err"
      and "bot_error_ok world
           \<or> failure_message (text_request_failed @ err) = error_message st"
  shows "snd (cycle fmt world st)
           = Inr (st\<lparr>error_message := failure_message (text_request_failed @ err)\<rparr>)
       \<and> last (fst (cycle fmt world st)) = Sleep RETRY_TIME
       \<and> run fmt st (world # worlds)
           = (fst (cycle fmt world st)
              @ fst (run fmt (st\<lparr>error_message := failure_message (text_request_failed @ err)\<rparr>)
                     worlds),
              snd (run fmt (st\<lparr>error_message := failure_message (text_request_failed @ err)\<rparr>)
                     worlds))
       \<and> requests (fst (run fmt st [world, world2]))
           = [from_date world st,
              from_date world2 (st\<lparr>error_message := failure_message (text_request_failed @ err)\<rparr>)]"
proof -
  let ?m = "failure_message (text_request_failed @ err)"
  let ?e = "APIerrorException (text_request_failed @ err)"
  note tb = try_body_transport [OF assms(1), of fmt]
  have "\<exists>evs. cycle fmt world st = (evs @ [Sleep RETRY_TIME], Inr (st\<lparr>error_message := ?m\<rparr>))"
  proof (cases "failure_message (str_exn ?e) = error_message st")
    case True
    from cycle_suppressed [OF tb True] True show ?thesis by simp
  next
    case False
    with assms(2) have ok: "bot_error_ok world" by simp
    from cycle_reported [OF tb False ok] show ?thesis by simp
  qed
  then obtain evs where
    cy: "cycle fmt world st = (evs @ [Sleep RETRY_TIME], Inr (st\<lparr>error_message := ?m\<rparr>))"
    by blast
  obtain evs2 r2 where c2: "cycle fmt world2 (st\<lparr>error_message := ?m\<rparr>) = (evs2, r2)"
    by (cases "cycle fmt world2 (st\<lparr>error_message := ?m\<rparr>)") auto
  have r1: "requests (evs @ [Sleep RETRY_TIME]) = [from_date world st]"
    using cycle_requests [of fmt world st] by (simp add: cy)
  have r2: "requests evs2 = [from_date world2 (st\<lparr>error_message := ?m\<rparr>)]"
    using cycle_requests [of fmt world2 "st\<lparr>error_message := ?m\<rparr>"] by (simp add: c2)
  have "fst (run fmt st [world, world2]) = (evs @ [Sleep RETRY_TIME]) @ evs2"
    by (cases r2) (simp_all add: cy c2)
  with r1 r2 have two: "requests (fst (run fmt st [world, world2]))
           = [from_date world st, from_date world2 (st\<lparr>error_message := ?m\<rparr>)]"
    by (simp only: requests_append) simp
  from cy run_continues [OF cy, of worlds] two show ?thesis
    by (simp del: run.simps)
qed

theorem C9_witness:
  "requests (fst (run no_fmt (initial_state 5)
        [serving 5 (RequestException ''timeout'') True True,
         serving 605 (RequestException ''timeout'') True False]))
   = [JInt 5, JInt 5]
   \<and> snd (cycle no_fmt (serving 5 (RequestException ''timeout'') True True) (initial_state 5))
   = Inr ((initial_state 5)\<lparr>error_message :=
            failure_message (text_request_failed @ ''timeout'')\<rparr>)"
proof -
  let ?w1 = "serving 5 (RequestException ''timeout'') True True"
  have r: "requests_get ?w1 (from_date ?w1 (initial_state 5)) = RequestException ''timeout''"
    by (simp add: serving_def)
  have ok: "bot_error_ok ?w1
      \<or> failure_message (text_request_failed @ ''timeout'') = error_message (initial_state 5)"
    by (simp add: serving_def)
  let ?w2 = "serving 605 (RequestException ''timeout'') True False"
  let ?s1 = "(initial_state 5)\<lparr>error_message :=
               failure_message (text_request_failed @ ''timeout'')\<rparr>"
  have fd1: "from_date ?w1 (initial_state 5) = JInt 5"
    by (simp add: from_date_serving)
  have fd2: "from_date ?w2 ?s1 = JInt 5"
    by (simp add: from_date_def initial_state_def)
  from C9_transport_failure_is_survived [OF r ok, of no_fmt "[]" ?w2]
  have "snd (cycle no_fmt ?w1 (initial_state 5)) = Inr ?s1"
   and "requests (fst (run no_fmt (initial_state 5) [?w1, ?w2]))
          = [from_date ?w1 (initial_state 5), from_date ?w2 ?s1]"
    by blast+
  with fd1 fd2 show ?thesis by (simp del: run.simps)
qed

section \<open>The last error message is kept (claim C10)\<close>

text \<open>
  Claim C10, as stated, fails. Three iterations: \<^verbatim>\<open>requests.get\<close> fails with
  \<^verbatim>\<open>timeout\<close>, then the service answers \<^verbatim>\<open>{"homeworks": []}\<close>, then
  \<^verbatim>\<open>requests.get\<close> fails with \<^verbatim>\<open>timeout\<close> again; Telegram accepts every message.
  The report of the first error is delivered, the report of the second one takes its
  place as the last error message, and the third iteration, which fails with the
  description of the first, reports it again.
\<close>

theorem C10_counterexample:
  "sent_by ErrorNotice (fst (run no_fmt (initial_state 5)
     [serving 5 (RequestException ''timeout'') True True,
      serving 605 (Response 200 (Json nothing_payload)) True True,
      serving 1205 (RequestException ''timeout'') True True]))
   = [failure_message (text_request_failed @ ''timeout''),
      failure_message text_empty_list,
      failure_message (text_request_failed @ ''timeout'')]"
proof -
  let ?w1 = "serving 5 (RequestException ''timeout'') True True"
  let ?w2 = "serving 605 (Response 200 (Json nothing_payload)) True True"
  let ?w3 = "serving 1205 (RequestException ''timeout'') True True"
  let ?D = "text_request_failed @ ''timeout''"
  let ?e = "APIerrorException ?D"
  let ?s1 = "(initial_state 5)\<lparr>error_message := failure_message ?D\<rparr>"
  let ?s2 = "?s1\<lparr>current_timestamp := JNull, error_message := failure_message text_empty_list\<rparr>"
  let ?s3 = "?s2\<lparr>error_message := failure_message ?D\<rparr>"
  have r: "\<And>w s. requests_get ?w1 (from_date w s) = RequestException ''timeout''"
          "\<And>w s. requests_get ?w3 (from_date w s) = RequestException ''timeout''"
    by (simp_all add: serving_def)
  note tb1 = try_body_transport [of ?w1 "initial_state 5", OF r(1), of no_fmt]
  note tb2 = nothing_try_body [of no_fmt 605 True True ?s1]
  note tb3 = try_body_transport [of ?w3 ?s2, OF r(2), of no_fmt]
  have differ: "?D \<noteq> text_empty_list"
    by (simp add: text_request_failed_def text_empty_list_def)
  have ne1: "failure_message (str_exn ?e) \<noteq> error_message (initial_state 5)"
    by (simp add: initial_state_def failure_message_nonempty)
  have ne2: "failure_message (str_exn (TypeError text_empty_list))
               \<noteq> error_message (?s1\<lparr>current_timestamp := JNull\<rparr>)"
    using differ by (simp add: failure_message_eq)
  have ne3: "failure_message (str_exn ?e) \<noteq> error_message ?s2"
    using differ by (simp add: failure_message_eq)
  have ok: "bot_error_ok ?w1" "bot_error_ok ?w2" "bot_error_ok ?w3"
    by (simp_all add: serving_def)
  have c1: "cycle no_fmt ?w1 (initial_state 5) =
      ([Request (from_date ?w1 (initial_state 5))] @
       [Send ErrorNotice (failure_message ?D) True, Sleep RETRY_TIME], Inr ?s1)"
    using cycle_reported [OF tb1 ne1 ok(1)] by simp
  have c2: "cycle no_fmt ?w2 ?s1 =
      ([Request (from_date ?w2 ?s1)] @
       [Send ErrorNotice (failure_message text_empty_list) True, Sleep RETRY_TIME], Inr ?s2)"
    using cycle_reported [OF tb2 ne2 ok(2)] by simp
  have c3: "cycle no_fmt ?w3 ?s2 =
      ([Request (from_date ?w3 ?s2)] @
       [Send ErrorNotice (failure_message ?D) True, Sleep RETRY_TIME], Inr ?s3)"
    using cycle_reported [OF tb3 ne3 ok(3)] by simp
  have r3: "fst (run no_fmt ?s2 [?w3]) =
      [Request (from_date ?w3 ?s2)] @
      [Send ErrorNotice (failure_message ?D) True, Sleep RETRY_TIME]"
    using run_continues [OF c3, of "[]"] by (simp del: run.simps) simp
  have r2: "fst (run no_fmt ?s1 [?w2, ?w3]) =
      ([Request (from_date ?w2 ?s1)] @
       [Send ErrorNotice (failure_message text_empty_list) True, Sleep RETRY_TIME])
      @ fst (run no_fmt ?s2 [?w3])"
    using run_continues [OF c2, of "[?w3]"] by (simp del: run.simps)
  have r1: "fst (run no_fmt (initial_state 5) [?w1, ?w2, ?w3]) =
      ([Request (from_date ?w1 (initial_state 5))] @
       [Send ErrorNotice (failure_message ?D) True, Sleep RETRY_TIME])
      @ fst (run no_fmt ?s1 [?w2, ?w3])"
    using run_continues [OF c1, of "[?w2, ?w3]"] by (simp del: run.simps)
  show ?thesis
    by (simp only: r1 r2 r3 sent_by_append) simp
qed

text \<open>
  Claim C10, amended: once an iteration has delivered the error notification for the
  description \<open>D\<close>, then through any number of later iterations that each fail with
  that same description \<open>D\<close>, no error notification is made, the process goes on, and
  the last error message is still the one for \<open>D\<close>. (A delivered report of another
  error takes the place of the last error message, and \<open>D\<close> is then reported again:
  \<open>other_error_is_reported_again\<close>. Iterations that end without an error are left
  out: no run of this program has one.)
\<close>

theorem C10_error_message_is_kept:
  assumes "cycle fmt world0 st0 = (evs0, Inr st)"
      and "Send ErrorNotice (failure_message D) True \<in> set evs0"
      and "failing_with fmt D st worlds"
  shows "sent_by ErrorNotice (fst (run fmt st worlds)) = []
         \<and> (\<exists>st'. snd (run fmt st worlds) = Inr st' \<and> error_message st' = failure_message D)"
  using failing_with_run [OF delivered_report_is_recorded [OF assms(1) assms(2)] assms(3)] .

theorem C10_witness:
  "sent_by ErrorNotice (fst (run no_fmt
      ((initial_state 5)\<lparr>error_message := failure_message (text_request_failed @ ''timeout'')\<rparr>)
      [serving 605 (RequestException ''timeout'') True False,
       serving 1205 (RequestException ''timeout'') True False])) = []"
proof -
  let ?w0 = "serving 5 (RequestException ''timeout'') True True"
  let ?w1 = "serving 605 (RequestException ''timeout'') True False"
  let ?w2 = "serving 1205 (RequestException ''timeout'') True False"
  let ?D = "text_request_failed @ ''timeout''"
  let ?e = "APIerrorException ?D"
  let ?s1 = "(initial_state 5)\<lparr>error_message := failure_message ?D\<rparr>"
  have r: "\<And>w s. requests_get ?w0 (from_date w s) = RequestException ''timeout''"
          "\<And>w s. requests_get ?w1 (from_date w s) = RequestException ''timeout''"
          "\<And>w s. requests_get ?w2 (from_date w s) = RequestException ''timeout''"
    by (simp_all add: serving_def)
  note tb0 = try_body_transport [of ?w0 "initial_state 5", OF r(1), of no_fmt]
  note tb1 = try_body_transport [of ?w1 ?s1, OF r(2), of no_fmt]
  note tb2 = try_body_transport [of ?w2 ?s1, OF r(3), of no_fmt]
  have ne: "failure_message (str_exn ?e) \<noteq> error_message (initial_state 5)"
    by (simp add: initial_state_def failure_message_nonempty)
  have ok: "bot_error_ok ?w0" by (simp add: serving_def)
  have cy0: "cycle no_fmt ?w0 (initial_state 5) =
      ([Request (from_date ?w0 (initial_state 5)),
        Send ErrorNotice (failure_message ?D) True, Sleep RETRY_TIME], Inr ?s1)"
    using cycle_reported [OF tb0 ne ok] by simp
  have sent: "Send ErrorNotice (failure_message ?D) True
      \<in> set [Request (from_date ?w0 (initial_state 5)),
              Send ErrorNotice (failure_message ?D) True, Sleep RETRY_TIME]"
    by simp
  have eq: "failure_message (str_exn ?e) = error_message ?s1" by simp
  have cy1: "cycle no_fmt ?w1 ?s1 = ([Request (from_date ?w1 ?s1)] @ [Sleep RETRY_TIME], Inr ?s1)"
    by (rule cycle_suppressed [OF tb1 eq])
  have cy2: "cycle no_fmt ?w2 ?s1 = ([Request (from_date ?w2 ?s1)] @ [Sleep RETRY_TIME], Inr ?s1)"
    by (rule cycle_suppressed [OF tb2 eq])
  have q: "failing_with no_fmt ?D ?s1 [?w1, ?w2]"
    by (simp add: tb1 tb2 cy1 cy2)
  from C10_error_message_is_kept [OF cy0 sent q]
  show ?thesis by simp
qed

end
